theory Spec2Isabelle
  imports Complex_Main
begin

section \<open>Sticky-expanding scroll effect: the three variants of the height engine\<close>

text \<open>
  The repository holds three versions of one composable:
  \<^item> \<^verbatim>\<open>useStickyBox\<close> (\<^verbatim>\<open>composables/useStickyAnimation.ts\<close>), the basic variant, which
    works on document offsets (\<^verbatim>\<open>offsetTop\<close>, \<^verbatim>\<open>offsetHeight\<close>);
  \<^item> \<^verbatim>\<open>useStickyExpansion\<close> of \<^verbatim>\<open>part_000\<close>, the middle variant, which works on
    viewport-relative bounding boxes;
  \<^item> \<^verbatim>\<open>useStickyExpansion\<close> of \<^verbatim>\<open>part_001\<close>, the refined variant, which adds the
    resize handler, the start height and the throttled listeners.

  Definitions of the basic variant carry the suffix \<open>_box\<close>, those of the middle variant
  \<open>_mid\<close>, those of the refined variant \<open>_ref\<close>; what two variants share word for word has
  no suffix.

  A JavaScript \<^verbatim>\<open>number\<close> is modelled as a \<^typ>\<open>real\<close>: pixel geometry and scroll offsets
  are finite and may be fractional, and \<^verbatim>\<open>Math.min\<close>, \<^verbatim>\<open>Math.max\<close>, \<open>+\<close>, \<open>-\<close> and \<open><\<close>
  are the operations of the same name. Rounding, \<^verbatim>\<open>NaN\<close> and the infinities of IEEE
  doubles are outside the model.
\<close>

subsection \<open>Options, engine state and geometry\<close>

text \<open>
  \<^verbatim>\<open>StickyExpansionOptions\<close> and \<^verbatim>\<open>StickyBoxOptions\<close> share their first three fields; the
  records below are the options after the defaulting of the destructuring assignment.
\<close>

record HeightOptions =
  minHeight :: real
  maxHeight :: real
  headerHeight :: real

record StickyExpansionOptions = HeightOptions +
  stickyPadding :: real

record StickyBoxOptions = HeightOptions +
  topOffsetPadding :: real
  bottomOffset :: real

definition defaultExpansionOptions :: StickyExpansionOptions where
  "defaultExpansionOptions =
     \<lparr>minHeight = 640, maxHeight = 1000, headerHeight = 60, stickyPadding = 20\<rparr>"

definition defaultBoxOptions :: StickyBoxOptions where
  "defaultBoxOptions =
     \<lparr>minHeight = 640, maxHeight = 1000, headerHeight = 60,
      topOffsetPadding = 20, bottomOffset = 20\<rparr>"

text \<open>
  The closure variables of the composable. The basic variant calls the flag
  \<^verbatim>\<open>isExpansionTriggered\<close>; the refined variant adds \<^verbatim>\<open>expansionStartHeight\<close>.
\<close>

record TriggerState =
  hasStartedExpanding :: bool
  expansionStartScrollY :: real

record RefinedState = TriggerState +
  expansionStartHeight :: real

abbreviation (input) isExpansionTriggered :: "TriggerState \<Rightarrow> bool" where
  "isExpansionTriggered \<equiv> hasStartedExpanding"

text \<open>
  What the handlers read from the host at the moment they run: \<^verbatim>\<open>window.scrollY\<close> and
  \<^verbatim>\<open>window.innerHeight\<close>, and of an element the \<^verbatim>\<open>top\<close> and \<^verbatim>\<open>bottom\<close> of
  \<^verbatim>\<open>getBoundingClientRect()\<close>, \<^verbatim>\<open>offsetTop\<close> and \<^verbatim>\<open>offsetHeight\<close>. A
  \<^verbatim>\<open>Ref<HTMLElement | null>\<close> read through \<^verbatim>\<open>.value\<close> is an \<^typ>\<open>'a option\<close>.
\<close>

record Window =
  scrollY :: real
  innerHeight :: real

record HTMLElement =
  rect_top :: real
  rect_bottom :: real
  offsetTop :: real
  offsetHeight :: real

record Host =
  window :: Window
  stickyElementRef :: "HTMLElement option"
  containerRef :: "HTMLElement option"

text \<open>
  The two refs are the arguments of the composable (the basic variant calls them
  \<^verbatim>\<open>stickyBoxRef\<close> and \<^verbatim>\<open>parentContainerRef\<close>); a \<^typ>\<open>Host\<close> is what a handler finds when it
  runs. Nothing of it is kept from one call to the next.

  A handler returns the closure state after the call and the number it assigned to
  \<^verbatim>\<open>style.height\<close> of the sticky element (as \<^verbatim>\<open>`${h}px`\<close>), \<open>None\<close> when it assigned nothing.
\<close>

subsection \<open>Basic variant: \<^verbatim>\<open>useStickyBox\<close>\<close>

definition topOffset :: "StickyBoxOptions \<Rightarrow> real" where
  "topOffset opts = headerHeight opts + topOffsetPadding opts"

definition handleScroll_box ::
  "StickyBoxOptions \<Rightarrow> Host \<Rightarrow> TriggerState \<Rightarrow> TriggerState \<times> real option" where
  "handleScroll_box opts host st =
     (if \<not> isExpansionTriggered st then (st, None)
      else case stickyElementRef host of
        None \<Rightarrow> (st, None)
      | Some stickyBox \<Rightarrow>
         (case containerRef host of
            None \<Rightarrow> (st, None)
          | Some parentContainer \<Rightarrow>
             (let y = scrollY (window host);
                  stickyStartPoint = offsetTop parentContainer - topOffset opts;
                  finalScrollDelta = stickyStartPoint - expansionStartScrollY st;
                  stickyHeightWhenLocked =
                    minHeight opts + max 0 (finalScrollDelta - bottomOffset opts);
                  finalStickyHeight = min stickyHeightWhenLocked (maxHeight opts);
                  stickyEndPoint =
                    offsetTop parentContainer + offsetHeight parentContainer
                      - finalStickyHeight - topOffset opts;
                  newHeight =
                    (if y < stickyStartPoint then
                       (let scrollDelta = y - expansionStartScrollY st
                        in minHeight opts + max 0 (scrollDelta - bottomOffset opts))
                     else if y \<ge> stickyStartPoint \<and> y < stickyEndPoint then
                       finalStickyHeight
                     else
                       (let distancePastEnd = y - stickyEndPoint
                        in finalStickyHeight - distancePastEnd));
                  clampedHeight = max (minHeight opts) (min newHeight (maxHeight opts))
              in (st, Some clampedHeight))))"

subsection \<open>Middle and refined variants: \<^verbatim>\<open>useStickyExpansion\<close>\<close>

definition stickyTriggerOffset :: "StickyExpansionOptions \<Rightarrow> real" where
  "stickyTriggerOffset opts = headerHeight opts + stickyPadding opts"

text \<open>The local constants of \<^verbatim>\<open>handleScroll\<close>, in the order of the source.\<close>

definition scrollDrivenHeight_mid ::
  "StickyExpansionOptions \<Rightarrow> Window \<Rightarrow> TriggerState \<Rightarrow> real" where
  "scrollDrivenHeight_mid opts win st =
     (let scrollDelta = scrollY win - expansionStartScrollY st
      in minHeight opts + max 0 scrollDelta)"

definition scrollDrivenHeight_ref :: "Window \<Rightarrow> RefinedState \<Rightarrow> real" where
  "scrollDrivenHeight_ref win st =
     (let scrollDelta = scrollY win - expansionStartScrollY st
      in expansionStartHeight st + max 0 scrollDelta)"

definition viewportLimitedHeight ::
  "StickyExpansionOptions \<Rightarrow> Window \<Rightarrow> HTMLElement \<Rightarrow> real" where
  "viewportLimitedHeight opts win stickyEl =
     innerHeight win - rect_top stickyEl - stickyPadding opts"

definition potentialHeight_mid ::
  "StickyExpansionOptions \<Rightarrow> Window \<Rightarrow> HTMLElement \<Rightarrow> TriggerState \<Rightarrow> real" where
  "potentialHeight_mid opts win stickyEl st =
     min (scrollDrivenHeight_mid opts win st) (viewportLimitedHeight opts win stickyEl)"

definition potentialHeight_ref ::
  "StickyExpansionOptions \<Rightarrow> Window \<Rightarrow> HTMLElement \<Rightarrow> RefinedState \<Rightarrow> real" where
  "potentialHeight_ref opts win stickyEl st =
     min (scrollDrivenHeight_ref win st) (viewportLimitedHeight opts win stickyEl)"

definition currentMaxHeight_mid ::
  "StickyExpansionOptions \<Rightarrow> Window \<Rightarrow> HTMLElement \<Rightarrow> TriggerState \<Rightarrow> real" where
  "currentMaxHeight_mid opts win stickyEl st =
     min (potentialHeight_mid opts win stickyEl st) (maxHeight opts)"

definition currentMaxHeight_ref ::
  "StickyExpansionOptions \<Rightarrow> Window \<Rightarrow> HTMLElement \<Rightarrow> RefinedState \<Rightarrow> real" where
  "currentMaxHeight_ref opts win stickyEl st =
     min (potentialHeight_ref opts win stickyEl st) (maxHeight opts)"

definition isCollapsing_mid ::
  "StickyExpansionOptions \<Rightarrow> Window \<Rightarrow> HTMLElement \<Rightarrow> HTMLElement \<Rightarrow> TriggerState
     \<Rightarrow> bool" where
  "isCollapsing_mid opts win stickyEl container st \<longleftrightarrow>
     rect_bottom container < currentMaxHeight_mid opts win stickyEl st + stickyTriggerOffset opts"

definition isCollapsing_ref ::
  "StickyExpansionOptions \<Rightarrow> Window \<Rightarrow> HTMLElement \<Rightarrow> HTMLElement \<Rightarrow> RefinedState
     \<Rightarrow> bool" where
  "isCollapsing_ref opts win stickyEl container st \<longleftrightarrow>
     rect_bottom container < currentMaxHeight_ref opts win stickyEl st + stickyTriggerOffset opts"

text \<open>
  The two branches of \<^verbatim>\<open>if (isCollapsing)\<close>. The middle variant subtracts
  \<^verbatim>\<open>stickyPadding\<close> once more in \<^verbatim>\<open>distancePastEnd\<close>; the refined variant does not.
\<close>

definition distancePastEnd_mid ::
  "StickyExpansionOptions \<Rightarrow> Window \<Rightarrow> HTMLElement \<Rightarrow> HTMLElement \<Rightarrow> TriggerState
     \<Rightarrow> real" where
  "distancePastEnd_mid opts win stickyEl container st =
     currentMaxHeight_mid opts win stickyEl st + stickyTriggerOffset opts
       - rect_bottom container - stickyPadding opts"

definition distancePastEnd_ref ::
  "StickyExpansionOptions \<Rightarrow> Window \<Rightarrow> HTMLElement \<Rightarrow> HTMLElement \<Rightarrow> RefinedState
     \<Rightarrow> real" where
  "distancePastEnd_ref opts win stickyEl container st =
     currentMaxHeight_ref opts win stickyEl st + stickyTriggerOffset opts
       - rect_bottom container"

definition collapsingHeight_mid ::
  "StickyExpansionOptions \<Rightarrow> Window \<Rightarrow> HTMLElement \<Rightarrow> HTMLElement \<Rightarrow> TriggerState
     \<Rightarrow> real" where
  "collapsingHeight_mid opts win stickyEl container st =
     currentMaxHeight_mid opts win stickyEl st
       - distancePastEnd_mid opts win stickyEl container st"

definition collapsingHeight_ref ::
  "StickyExpansionOptions \<Rightarrow> Window \<Rightarrow> HTMLElement \<Rightarrow> HTMLElement \<Rightarrow> RefinedState
     \<Rightarrow> real" where
  "collapsingHeight_ref opts win stickyEl container st =
     currentMaxHeight_ref opts win stickyEl st
       - distancePastEnd_ref opts win stickyEl container st"

text \<open>\<^verbatim>\<open>newHeight\<close> before the clamp: the spec's \<open>rawHeight\<close>.\<close>

definition newHeight_mid ::
  "StickyExpansionOptions \<Rightarrow> Window \<Rightarrow> HTMLElement \<Rightarrow> HTMLElement \<Rightarrow> TriggerState
     \<Rightarrow> real" where
  "newHeight_mid opts win stickyEl container st =
     (if isCollapsing_mid opts win stickyEl container st
      then collapsingHeight_mid opts win stickyEl container st
      else potentialHeight_mid opts win stickyEl st)"

definition newHeight_ref ::
  "StickyExpansionOptions \<Rightarrow> Window \<Rightarrow> HTMLElement \<Rightarrow> HTMLElement \<Rightarrow> RefinedState
     \<Rightarrow> real" where
  "newHeight_ref opts win stickyEl container st =
     (if isCollapsing_ref opts win stickyEl container st
      then collapsingHeight_ref opts win stickyEl container st
      else potentialHeight_ref opts win stickyEl st)"

definition handleScroll_mid ::
  "StickyExpansionOptions \<Rightarrow> Host \<Rightarrow> TriggerState \<Rightarrow> TriggerState \<times> real option" where
  "handleScroll_mid opts host st =
     (if \<not> hasStartedExpanding st then (st, None)
      else case stickyElementRef host of
        None \<Rightarrow> (st, None)
      | Some stickyEl \<Rightarrow>
         (case containerRef host of
            None \<Rightarrow> (st, None)
          | Some container \<Rightarrow>
             (let newHeight = newHeight_mid opts (window host) stickyEl container st;
                  finalHeight = max (minHeight opts) (min newHeight (maxHeight opts))
              in (st, Some finalHeight))))"

definition handleScroll_ref ::
  "StickyExpansionOptions \<Rightarrow> Host \<Rightarrow> RefinedState \<Rightarrow> RefinedState \<times> real option" where
  "handleScroll_ref opts host st =
     (if \<not> hasStartedExpanding st then (st, None)
      else case stickyElementRef host of
        None \<Rightarrow> (st, None)
      | Some stickyEl \<Rightarrow>
         (case containerRef host of
            None \<Rightarrow> (st, None)
          | Some container \<Rightarrow>
             (let newHeight = newHeight_ref opts (window host) stickyEl container st;
                  finalHeight = max (minHeight opts) (min newHeight (maxHeight opts))
              in (st, Some finalHeight))))"

text \<open>
  \<^verbatim>\<open>updateHeightToFitViewport\<close> assigns \<^verbatim>\<open>newHeight\<close> to \<^verbatim>\<open>element.style.height\<close> and returns
  it: the value below is both the height written and the result.
\<close>

definition updateHeightToFitViewport ::
  "StickyExpansionOptions \<Rightarrow> Window \<Rightarrow> HTMLElement \<Rightarrow> real" where
  "updateHeightToFitViewport opts win element =
     (let idealHeight = innerHeight win - rect_top element - stickyPadding opts;
          newHeight = max (minHeight opts) (min idealHeight (maxHeight opts))
      in newHeight)"

definition handleResize ::
  "StickyExpansionOptions \<Rightarrow> Host \<Rightarrow> RefinedState \<Rightarrow> RefinedState \<times> real option" where
  "handleResize opts host st =
     (if \<not> hasStartedExpanding st then (st, None)
      else case stickyElementRef host of
        None \<Rightarrow> (st, None)
      | Some stickyEl \<Rightarrow>
         (let newHeight = updateHeightToFitViewport opts (window host) stickyEl
          in (st\<lparr>expansionStartHeight := newHeight,
                 expansionStartScrollY := scrollY (window host)\<rparr>,
              Some newHeight)))"

subsection \<open>The trigger: the callback of the intersection observer\<close>

record IntersectionObserverEntry =
  isIntersecting :: bool
  target :: HTMLElement

definition initialState :: TriggerState where
  "initialState = \<lparr>hasStartedExpanding = False, expansionStartScrollY = 0\<rparr>"

definition initialState_ref :: "StickyExpansionOptions \<Rightarrow> RefinedState" where
  "initialState_ref opts =
     \<lparr>hasStartedExpanding = False, expansionStartScrollY = 0,
      expansionStartHeight = minHeight opts\<rparr>"

text \<open>
  The body of \<^verbatim>\<open>entries.forEach\<close>. Beside the closure state it is given, and returns
  extended, the list of the targets it passed to \<^verbatim>\<open>unobserve\<close> and, in the refined variant,
  the list of the heights it wrote through \<^verbatim>\<open>updateHeightToFitViewport\<close>. The callback of
  the basic variant (\<^verbatim>\<open>triggerCallback\<close>) is that of the middle variant up to the names.
\<close>

definition onEntry_mid ::
  "Window \<Rightarrow> IntersectionObserverEntry \<Rightarrow> TriggerState \<times> HTMLElement list
     \<Rightarrow> TriggerState \<times> HTMLElement list" where
  "onEntry_mid win entry acc =
     (case acc of (st, unobserved) \<Rightarrow>
        if isIntersecting entry \<and> \<not> hasStartedExpanding st then
          (st\<lparr>hasStartedExpanding := True, expansionStartScrollY := scrollY win\<rparr>,
           unobserved @ [target entry])
        else (st, unobserved))"

definition observerCallback_mid ::
  "Window \<Rightarrow> IntersectionObserverEntry list \<Rightarrow> TriggerState \<times> HTMLElement list
     \<Rightarrow> TriggerState \<times> HTMLElement list" where
  "observerCallback_mid win entries acc = fold (onEntry_mid win) entries acc"

definition triggerCallback_box ::
  "Window \<Rightarrow> IntersectionObserverEntry list \<Rightarrow> TriggerState \<times> HTMLElement list
     \<Rightarrow> TriggerState \<times> HTMLElement list" where
  "triggerCallback_box win entries acc = fold (onEntry_mid win) entries acc"

definition onEntry_ref ::
  "StickyExpansionOptions \<Rightarrow> Window \<Rightarrow> IntersectionObserverEntry
     \<Rightarrow> RefinedState \<times> real list \<times> HTMLElement list
     \<Rightarrow> RefinedState \<times> real list \<times> HTMLElement list" where
  "onEntry_ref opts win entry acc =
     (case acc of (st, writes, unobserved) \<Rightarrow>
        if isIntersecting entry \<and> \<not> hasStartedExpanding st then
          (let initialHeight = updateHeightToFitViewport opts win (target entry)
           in (st\<lparr>hasStartedExpanding := True, expansionStartScrollY := scrollY win,
                  expansionStartHeight := initialHeight\<rparr>,
               writes @ [initialHeight],
               unobserved @ [target entry]))
        else (st, writes, unobserved))"

definition observerCallback_ref ::
  "StickyExpansionOptions \<Rightarrow> Window \<Rightarrow> IntersectionObserverEntry list
     \<Rightarrow> RefinedState \<times> real list \<times> HTMLElement list
     \<Rightarrow> RefinedState \<times> real list \<times> HTMLElement list" where
  "observerCallback_ref opts win entries acc = fold (onEntry_ref opts win) entries acc"

text \<open>
  A sequence of notifications: each is one call of the callback, with the window as it is
  at that moment and the entries delivered.
\<close>

definition notify_mid ::
  "(Window \<times> IntersectionObserverEntry list) list \<Rightarrow> TriggerState \<times> HTMLElement list
     \<Rightarrow> TriggerState \<times> HTMLElement list" where
  "notify_mid ns acc = fold (\<lambda>(win, entries). observerCallback_mid win entries) ns acc"

definition notify_box ::
  "(Window \<times> IntersectionObserverEntry list) list \<Rightarrow> TriggerState \<times> HTMLElement list
     \<Rightarrow> TriggerState \<times> HTMLElement list" where
  "notify_box ns acc = fold (\<lambda>(win, entries). triggerCallback_box win entries) ns acc"

definition notify_ref ::
  "StickyExpansionOptions \<Rightarrow> (Window \<times> IntersectionObserverEntry list) list
     \<Rightarrow> RefinedState \<times> real list \<times> HTMLElement list
     \<Rightarrow> RefinedState \<times> real list \<times> HTMLElement list" where
  "notify_ref opts ns acc =
     fold (\<lambda>(win, entries). observerCallback_ref opts win entries) ns acc"

subsection \<open>The refined variant as a whole: listeners, throttling, teardown\<close>

text \<open>
  Modelled from the spec: \<^verbatim>\<open>throttle\<close> is imported from \<^verbatim>\<open>lodash-es\<close> and is not part of
  the sources. The spec asks of the rate limiter that it "deliver a call at most once per
  window, always deliver a final trailing call"; \<^verbatim>\<open>throttle(f, 100)\<close> with its default
  options does so: a call outside a window runs \<^verbatim>\<open>f\<close> at once and opens a window, a call
  inside a window is remembered, and when the window's timer expires a remembered call
  runs \<^verbatim>\<open>f\<close>. Time itself is not modelled: the expiry of a timer is an event.
  \<open>Waiting p\<close> is an open window, \<open>p\<close> telling whether a trailing call is pending.
\<close>

datatype Throttled = Idle | Waiting bool

definition throttle_call :: "Throttled \<Rightarrow> Throttled \<times> bool" where
  "throttle_call t = (case t of Idle \<Rightarrow> (Waiting False, True) | Waiting p \<Rightarrow> (Waiting True, False))"

definition throttle_expire :: "Throttled \<Rightarrow> Throttled \<times> bool" where
  "throttle_expire t = (case t of Idle \<Rightarrow> (Idle, False) | Waiting p \<Rightarrow> (Idle, p))"

text \<open>
  One instance of the refined composable: its closure state, whether
  \<^verbatim>\<open>throttledHandleScroll\<close> and \<^verbatim>\<open>throttledHandleResize\<close> are registered on the window,
  whether the current \<^verbatim>\<open>intersectionObserver\<close> still observes the sticky element, the two
  throttled functions (created once, outside \<^verbatim>\<open>watchEffect\<close>), and the heights written so
  far, oldest first.
\<close>

record Instance =
  closure :: RefinedState
  scrollListener :: bool
  resizeListener :: bool
  observing :: bool
  throttledHandleScroll :: Throttled
  throttledHandleResize :: Throttled
  heightWrites :: "real list"

definition useStickyExpansion_ref :: "StickyExpansionOptions \<Rightarrow> Instance" where
  "useStickyExpansion_ref opts =
     \<lparr>closure = initialState_ref opts, scrollListener = False, resizeListener = False,
      observing = False, throttledHandleScroll = Idle, throttledHandleResize = Idle,
      heightWrites = []\<rparr>"

datatype Event =
    EffectRun Host
  | Cleanup
  | ScrollEvent Host
  | ResizeEvent Host
  | ScrollTimer Host
  | ResizeTimer Host
  | Intersection Host "IntersectionObserverEntry list"

definition invoke ::
  "(RefinedState \<Rightarrow> RefinedState \<times> real option) \<Rightarrow> Instance \<Rightarrow> Instance" where
  "invoke handler s =
     (case handler (closure s) of (st, w) \<Rightarrow>
        s\<lparr>closure := st,
          heightWrites := heightWrites s @ (case w of None \<Rightarrow> [] | Some h \<Rightarrow> [h])\<rparr>)"

text \<open>
  \<open>EffectRun\<close> is the body of \<^verbatim>\<open>watchEffect\<close>, \<open>Cleanup\<close> the function it passes to
  \<^verbatim>\<open>onCleanup\<close>: it removes the two listeners and disconnects the observer, and does nothing
  else. \<open>ScrollEvent\<close> and \<open>ResizeEvent\<close> are the window's events, which reach the throttled
  function only while it is registered; \<open>ScrollTimer\<close> and \<open>ResizeTimer\<close> are the expiries
  of the throttles' timers; \<open>Intersection\<close> is a call of the observer's callback, which
  happens only while the observer observes the element.
\<close>

fun step :: "StickyExpansionOptions \<Rightarrow> Event \<Rightarrow> Instance \<Rightarrow> Instance" where
  "step opts (EffectRun host) s =
     (case stickyElementRef host of
        None \<Rightarrow> s
      | Some stickyEl \<Rightarrow>
         (case containerRef host of
            None \<Rightarrow> s
          | Some container \<Rightarrow>
              s\<lparr>observing := True, scrollListener := True, resizeListener := True\<rparr>))"
| "step opts Cleanup s =
     s\<lparr>scrollListener := False, resizeListener := False, observing := False\<rparr>"
| "step opts (ScrollEvent host) s =
     (if \<not> scrollListener s then s
      else case throttle_call (throttledHandleScroll s) of (t, now) \<Rightarrow>
        (let s' = s\<lparr>throttledHandleScroll := t\<rparr>
         in if now then invoke (handleScroll_ref opts host) s' else s'))"
| "step opts (ResizeEvent host) s =
     (if \<not> resizeListener s then s
      else case throttle_call (throttledHandleResize s) of (t, now) \<Rightarrow>
        (let s' = s\<lparr>throttledHandleResize := t\<rparr>
         in if now then invoke (handleResize opts host) s' else s'))"
| "step opts (ScrollTimer host) s =
     (case throttle_expire (throttledHandleScroll s) of (t, now) \<Rightarrow>
        (let s' = s\<lparr>throttledHandleScroll := t\<rparr>
         in if now then invoke (handleScroll_ref opts host) s' else s'))"
| "step opts (ResizeTimer host) s =
     (case throttle_expire (throttledHandleResize s) of (t, now) \<Rightarrow>
        (let s' = s\<lparr>throttledHandleResize := t\<rparr>
         in if now then invoke (handleResize opts host) s' else s'))"
| "step opts (Intersection host entries) s =
     (if \<not> observing s then s
      else case observerCallback_ref opts (window host) entries (closure s, [], []) of
        (st, writes, unobserved) \<Rightarrow>
          s\<lparr>closure := st, heightWrites := heightWrites s @ writes,
            observing := (unobserved = [])\<rparr>)"

definition run :: "StickyExpansionOptions \<Rightarrow> Event list \<Rightarrow> Instance \<Rightarrow> Instance" where
  "run opts evs s = fold (step opts) evs s"

text \<open>The events that come from outside: window events and observer notifications.\<close>

fun isNotification :: "Event \<Rightarrow> bool" where
  "isNotification (ScrollEvent host) = True"
| "isNotification (ResizeEvent host) = True"
| "isNotification (Intersection host entries) = True"
| "isNotification ev = False"

text \<open>
  After \<open>Cleanup\<close> nothing is registered any more; \<open>nothingPending\<close> says that neither
  throttle holds a trailing call.
\<close>

definition detached :: "Instance \<Rightarrow> bool" where
  "detached s \<longleftrightarrow> \<not> scrollListener s \<and> \<not> resizeListener s \<and> \<not> observing s"

definition nothingPending :: "Instance \<Rightarrow> bool" where
  "nothingPending s \<longleftrightarrow>
     throttledHandleScroll s \<noteq> Waiting True \<and> throttledHandleResize s \<noteq> Waiting True"

fun isEffectRun :: "Event \<Rightarrow> bool" where
  "isEffectRun (EffectRun host) = True"
| "isEffectRun ev = False"

subsection \<open>The spec's notation\<close>

text \<open>
  The spec writes \<open>clamp(x, lo, hi)\<close> for what the source computes as
  \<^verbatim>\<open>Math.max(lo, Math.min(x, hi))\<close>.
\<close>

definition clamp :: "real \<Rightarrow> real \<Rightarrow> real \<Rightarrow> real" where
  "clamp x lo hi = max lo (min x hi)"

subsection \<open>Concrete inputs\<close>

text \<open>
  The spec's scenario A: default options, trigger fired at \<open>scrollY = 500\<close>, now at
  \<open>scrollY = 700\<close>, a tall viewport and a container whose end is far away.
\<close>

definition exampleHost :: Host where
  "exampleHost =
     \<lparr>window = \<lparr>scrollY = 700, innerHeight = 2000\<rparr>,
      stickyElementRef =
        Some \<lparr>rect_top = 80, rect_bottom = 720, offsetTop = 400, offsetHeight = 640\<rparr>,
      containerRef =
        Some \<lparr>rect_top = 0, rect_bottom = 3000, offsetTop = 300, offsetHeight = 4000\<rparr>\<rparr>"

definition triggered :: TriggerState where
  "triggered = \<lparr>hasStartedExpanding = True, expansionStartScrollY = 500\<rparr>"

definition triggered_ref :: RefinedState where
  "triggered_ref =
     \<lparr>hasStartedExpanding = True, expansionStartScrollY = 500, expansionStartHeight = 640\<rparr>"

text \<open>
  The spec's scenario C: scrolled to \<open>scrollY = 760\<close>, so that the scroll-driven height is
  \<open>900\<close>, with the container's bottom edge at \<open>950\<close>.
\<close>

definition collapseHost :: Host where
  "collapseHost =
     \<lparr>window = \<lparr>scrollY = 760, innerHeight = 2000\<rparr>,
      stickyElementRef =
        Some \<lparr>rect_top = 80, rect_bottom = 980, offsetTop = 400, offsetHeight = 900\<rparr>,
      containerRef =
        Some \<lparr>rect_top = -3050, rect_bottom = 950, offsetTop = 300, offsetHeight = 4000\<rparr>\<rparr>"

text \<open>
  The same page with the container's bottom edge far above the element's desired end, and
  a page whose viewport is only \<open>800\<close> high.
\<close>

definition deepCollapseHost :: Host where
  "deepCollapseHost =
     \<lparr>window = \<lparr>scrollY = 760, innerHeight = 2000\<rparr>,
      stickyElementRef =
        Some \<lparr>rect_top = 80, rect_bottom = 720, offsetTop = 400, offsetHeight = 640\<rparr>,
      containerRef =
        Some \<lparr>rect_top = -3500, rect_bottom = 500, offsetTop = 300, offsetHeight = 4000\<rparr>\<rparr>"

definition lowViewportHost :: Host where
  "lowViewportHost =
     \<lparr>window = \<lparr>scrollY = 700, innerHeight = 800\<rparr>,
      stickyElementRef =
        Some \<lparr>rect_top = 80, rect_bottom = 780, offsetTop = 400, offsetHeight = 700\<rparr>,
      containerRef =
        Some \<lparr>rect_top = 0, rect_bottom = 3000, offsetTop = 300, offsetHeight = 4000\<rparr>\<rparr>"

text \<open>Options with the whole trigger offset in \<^verbatim>\<open>headerHeight\<close> and no padding.\<close>

definition noPaddingOptions :: StickyExpansionOptions where
  "noPaddingOptions =
     \<lparr>minHeight = 640, maxHeight = 1000, headerHeight = 80, stickyPadding = 0\<rparr>"

text \<open>
  A run of the refined variant: the effect attaches, the element becomes fully visible,
  two scroll events arrive within one throttle window (the first runs the handler, the
  second is kept as the trailing call), and the cleanup runs.
\<close>

definition pendingTrace :: "Event list" where
  "pendingTrace =
     [EffectRun lowViewportHost,
      Intersection lowViewportHost
        [\<lparr>isIntersecting = True,
          target = \<lparr>rect_top = 80, rect_bottom = 780, offsetTop = 400, offsetHeight = 700\<rparr>\<rparr>],
      ScrollEvent exampleHost,
      ScrollEvent collapseHost,
      Cleanup]"

text \<open>Three notifications of full visibility, at scroll offsets \<open>500\<close>, \<open>600\<close>, \<open>700\<close>.\<close>

definition fullyVisible :: IntersectionObserverEntry where
  "fullyVisible =
     \<lparr>isIntersecting = True,
      target = \<lparr>rect_top = 80, rect_bottom = 720, offsetTop = 400, offsetHeight = 640\<rparr>\<rparr>"

definition threeNotifications :: "(Window \<times> IntersectionObserverEntry list) list" where
  "threeNotifications =
     [(\<lparr>scrollY = 500, innerHeight = 800\<rparr>, [fullyVisible]),
      (\<lparr>scrollY = 600, innerHeight = 800\<rparr>, [fullyVisible]),
      (\<lparr>scrollY = 700, innerHeight = 800\<rparr>, [fullyVisible])]"

text \<open>
  A second attach cycle of one instance of the refined variant: the effect attaches, the
  element becomes fully visible and the trigger fires, the cleanup runs, and the effect
  runs again. Then three notifications of full visibility arrive.
\<close>

definition reattachTrace :: "Event list" where
  "reattachTrace =
     [EffectRun lowViewportHost,
      Intersection lowViewportHost [fullyVisible],
      Cleanup,
      EffectRun lowViewportHost]"

definition secondCycleNotifications :: "Event list" where
  "secondCycleNotifications =
     [Intersection collapseHost [fullyVisible],
      Intersection deepCollapseHost [fullyVisible],
      Intersection exampleHost [fullyVisible]]"

section \<open>The scroll handlers\<close>

lemmas scroll_defs = scrollDrivenHeight_mid_def scrollDrivenHeight_ref_def
  viewportLimitedHeight_def potentialHeight_mid_def potentialHeight_ref_def
  currentMaxHeight_mid_def currentMaxHeight_ref_def isCollapsing_mid_def isCollapsing_ref_def
  distancePastEnd_mid_def distancePastEnd_ref_def collapsingHeight_mid_def
  collapsingHeight_ref_def newHeight_mid_def newHeight_ref_def stickyTriggerOffset_def

lemmas example_defs = exampleHost_def collapseHost_def deepCollapseHost_def
  lowViewportHost_def triggered_def triggered_ref_def defaultBoxOptions_def
  defaultExpansionOptions_def noPaddingOptions_def

subsection \<open>The clamp invariant\<close>

text \<open>
  C1. After the trigger has fired, with the element and the container mounted and
  \<open>minHeight \<le> maxHeight\<close>, each of the three scroll handlers writes a height, and the
  height written lies between \<open>minHeight\<close> and \<open>maxHeight\<close>, whatever the geometry, the
  scroll offset and the rest of the state are.
\<close>

theorem handleScroll_clamped:
  assumes "stickyElementRef host = Some stickyEl" and "containerRef host = Some container"
    and "minHeight bopts \<le> maxHeight bopts" and "minHeight opts \<le> maxHeight opts"
    and "hasStartedExpanding bst" and "hasStartedExpanding mst" and "hasStartedExpanding rst"
  shows "(\<exists>h. snd (handleScroll_box bopts host bst) = Some h
              \<and> minHeight bopts \<le> h \<and> h \<le> maxHeight bopts)
       \<and> (\<exists>h. snd (handleScroll_mid opts host mst) = Some h
              \<and> minHeight opts \<le> h \<and> h \<le> maxHeight opts)
       \<and> (\<exists>h. snd (handleScroll_ref opts host rst) = Some h
              \<and> minHeight opts \<le> h \<and> h \<le> maxHeight opts)"
  using assms
  by (simp add: handleScroll_box_def handleScroll_mid_def handleScroll_ref_def Let_def)

theorem handleScroll_clamped_witness:
  "(\<exists>h. snd (handleScroll_box defaultBoxOptions exampleHost triggered) = Some h
        \<and> minHeight defaultBoxOptions \<le> h \<and> h \<le> maxHeight defaultBoxOptions)
 \<and> (\<exists>h. snd (handleScroll_mid defaultExpansionOptions exampleHost triggered) = Some h
        \<and> minHeight defaultExpansionOptions \<le> h \<and> h \<le> maxHeight defaultExpansionOptions)
 \<and> (\<exists>h. snd (handleScroll_ref defaultExpansionOptions exampleHost triggered_ref) = Some h
        \<and> minHeight defaultExpansionOptions \<le> h \<and> h \<le> maxHeight defaultExpansionOptions)"
  by (rule handleScroll_clamped
        [where stickyEl = "\<lparr>rect_top = 80, rect_bottom = 720, offsetTop = 400,
                             offsetHeight = 640\<rparr>"
           and container = "\<lparr>rect_top = 0, rect_bottom = 3000, offsetTop = 300,
                               offsetHeight = 4000\<rparr>"])
     (simp_all add: example_defs)

subsection \<open>The guard\<close>

text \<open>
  C5. When the trigger has not fired, or the element reference is null, or the container
  reference is null, the scroll handler of each variant returns at once: it writes no
  height and leaves the closure state as it was. The handler is a total function: there
  is no exception to raise.
\<close>

theorem handleScroll_noop:
  "(\<not> hasStartedExpanding bst \<or> stickyElementRef host = None \<or> containerRef host = None
      \<longrightarrow> handleScroll_box bopts host bst = (bst, None))
 \<and> (\<not> hasStartedExpanding mst \<or> stickyElementRef host = None \<or> containerRef host = None
      \<longrightarrow> handleScroll_mid opts host mst = (mst, None))
 \<and> (\<not> hasStartedExpanding rst \<or> stickyElementRef host = None \<or> containerRef host = None
      \<longrightarrow> handleScroll_ref opts host rst = (rst, None))"
  by (auto simp add: handleScroll_box_def handleScroll_mid_def handleScroll_ref_def
      split: option.splits)

theorem handleScroll_noop_witness:
  "handleScroll_box defaultBoxOptions exampleHost initialState = (initialState, None)
 \<and> handleScroll_mid defaultExpansionOptions (exampleHost\<lparr>stickyElementRef := None\<rparr>) triggered
     = (triggered, None)
 \<and> handleScroll_ref defaultExpansionOptions (exampleHost\<lparr>containerRef := None\<rparr>) triggered_ref
     = (triggered_ref, None)"
  using handleScroll_noop [where bst = initialState and host = exampleHost
      and bopts = defaultBoxOptions]
    handleScroll_noop [where mst = triggered and opts = defaultExpansionOptions
      and host = "exampleHost\<lparr>stickyElementRef := None\<rparr>"]
    handleScroll_noop [where rst = triggered_ref and opts = defaultExpansionOptions
      and host = "exampleHost\<lparr>containerRef := None\<rparr>"]
  by (simp add: initialState_def)

subsection \<open>Idempotence\<close>

text \<open>
  C7. The scroll handler of each variant returns the closure state it was given, whatever
  the inputs; so a second call with the same scroll offset, geometry and options starts
  from the same state and writes the same height as the first.
\<close>

theorem handleScroll_state_pure:
  "fst (handleScroll_box bopts host bst) = bst
 \<and> fst (handleScroll_mid opts host mst) = mst
 \<and> fst (handleScroll_ref opts host rst) = rst
 \<and> snd (handleScroll_box bopts host (fst (handleScroll_box bopts host bst)))
      = snd (handleScroll_box bopts host bst)
 \<and> snd (handleScroll_mid opts host (fst (handleScroll_mid opts host mst)))
      = snd (handleScroll_mid opts host mst)
 \<and> snd (handleScroll_ref opts host (fst (handleScroll_ref opts host rst)))
      = snd (handleScroll_ref opts host rst)"
proof -
  have b: "fst (handleScroll_box bopts host bst) = bst"
    by (simp add: handleScroll_box_def Let_def split: option.splits)
  have m: "fst (handleScroll_mid opts host mst) = mst"
    by (simp add: handleScroll_mid_def Let_def split: option.splits)
  have r: "fst (handleScroll_ref opts host rst) = rst"
    by (simp add: handleScroll_ref_def Let_def split: option.splits)
  show ?thesis by (simp only: b m r)
qed

subsection \<open>The collapse scenario\<close>

text \<open>
  C4, as the middle variant has it. With the default options and the geometry of scenario
  C (\<open>currentMaxHeight = 900\<close>, trigger offset \<open>80\<close>, container bottom \<open>950\<close>), the middle
  variant writes \<open>890\<close>, not \<open>870\<close>: its \<^verbatim>\<open>distancePastEnd\<close> is
  \<open>900 + 80 - 950 - 20 = 10\<close>.
\<close>

theorem scenario_C_mid_counterexample:
  "currentMaxHeight_mid defaultExpansionOptions (window collapseHost)
      \<lparr>rect_top = 80, rect_bottom = 980, offsetTop = 400, offsetHeight = 900\<rparr> triggered = 900
   \<and> stickyTriggerOffset defaultExpansionOptions = 80
   \<and> minHeight defaultExpansionOptions = 640 \<and> maxHeight defaultExpansionOptions = 1000
   \<and> stickyElementRef collapseHost =
       Some \<lparr>rect_top = 80, rect_bottom = 980, offsetTop = 400, offsetHeight = 900\<rparr>
   \<and> containerRef collapseHost =
       Some \<lparr>rect_top = -3050, rect_bottom = 950, offsetTop = 300, offsetHeight = 4000\<rparr>
   \<and> snd (handleScroll_mid defaultExpansionOptions collapseHost triggered) = Some 890
   \<and> snd (handleScroll_mid defaultExpansionOptions collapseHost triggered) \<noteq> Some 870"
  by (simp add: scroll_defs handleScroll_mid_def example_defs Let_def)

text \<open>
  C4, amended. For inputs with \<open>currentMaxHeight = 900\<close>, trigger offset \<open>80\<close>, container
  bottom \<open>950\<close>, \<open>minHeight = 640\<close> and \<open>maxHeight = 1000\<close>, the refined variant is in its
  collapse branch, the overrun is \<open>30\<close>, \<open>rawHeight\<close> is \<open>870\<close> and the height written is
  \<open>870\<close>. The middle variant is in its collapse branch too, but its overrun is
  \<open>30 - stickyPadding\<close>, its \<open>rawHeight\<close> is \<open>870 + stickyPadding\<close>, and it writes that
  value clamped to \<open>[640, 1000]\<close>.
\<close>

theorem scenario_C:
  assumes "hasStartedExpanding rst" and "hasStartedExpanding mst"
    and "stickyElementRef host = Some stickyEl" and "containerRef host = Some container"
    and "stickyTriggerOffset opts = 80" and "rect_bottom container = 950"
    and "minHeight opts = 640" and "maxHeight opts = 1000"
  shows "(currentMaxHeight_ref opts (window host) stickyEl rst = 900 \<longrightarrow>
            isCollapsing_ref opts (window host) stickyEl container rst
          \<and> distancePastEnd_ref opts (window host) stickyEl container rst = 30
          \<and> newHeight_ref opts (window host) stickyEl container rst = 870
          \<and> snd (handleScroll_ref opts host rst) = Some 870)
       \<and> (currentMaxHeight_mid opts (window host) stickyEl mst = 900 \<longrightarrow>
            isCollapsing_mid opts (window host) stickyEl container mst
          \<and> distancePastEnd_mid opts (window host) stickyEl container mst
              = 30 - stickyPadding opts
          \<and> newHeight_mid opts (window host) stickyEl container mst
              = 870 + stickyPadding opts
          \<and> snd (handleScroll_mid opts host mst)
              = Some (max 640 (min (870 + stickyPadding opts) 1000)))"
  using assms
  by (simp add: handleScroll_ref_def handleScroll_mid_def newHeight_ref_def newHeight_mid_def
      isCollapsing_ref_def isCollapsing_mid_def collapsingHeight_ref_def collapsingHeight_mid_def
      distancePastEnd_ref_def distancePastEnd_mid_def Let_def)

theorem scenario_C_witness:
  "currentMaxHeight_ref defaultExpansionOptions (window collapseHost)
      \<lparr>rect_top = 80, rect_bottom = 980, offsetTop = 400, offsetHeight = 900\<rparr> triggered_ref
     = 900
   \<and> distancePastEnd_ref defaultExpansionOptions (window collapseHost)
      \<lparr>rect_top = 80, rect_bottom = 980, offsetTop = 400, offsetHeight = 900\<rparr>
      \<lparr>rect_top = -3050, rect_bottom = 950, offsetTop = 300, offsetHeight = 4000\<rparr>
      triggered_ref = 30
   \<and> snd (handleScroll_ref defaultExpansionOptions collapseHost triggered_ref) = Some 870
   \<and> snd (handleScroll_mid defaultExpansionOptions collapseHost triggered) = Some 890"
proof -
  have cur: "currentMaxHeight_ref defaultExpansionOptions (window collapseHost)
      \<lparr>rect_top = 80, rect_bottom = 980, offsetTop = 400, offsetHeight = 900\<rparr> triggered_ref
     = 900"
    and cur': "currentMaxHeight_mid defaultExpansionOptions (window collapseHost)
      \<lparr>rect_top = 80, rect_bottom = 980, offsetTop = 400, offsetHeight = 900\<rparr> triggered
     = 900"
    by (simp_all add: scroll_defs example_defs Let_def)
  have "hasStartedExpanding triggered_ref" "hasStartedExpanding triggered"
    "stickyElementRef collapseHost =
       Some \<lparr>rect_top = 80, rect_bottom = 980, offsetTop = 400, offsetHeight = 900\<rparr>"
    "containerRef collapseHost =
       Some \<lparr>rect_top = -3050, rect_bottom = 950, offsetTop = 300, offsetHeight = 4000\<rparr>"
    "stickyTriggerOffset defaultExpansionOptions = 80"
    "rect_bottom \<lparr>rect_top = -3050, rect_bottom = 950, offsetTop = 300,
        offsetHeight = 4000\<rparr> = 950"
    "minHeight defaultExpansionOptions = 640" "maxHeight defaultExpansionOptions = 1000"
    by (simp_all add: example_defs stickyTriggerOffset_def)
  from scenario_C [OF this] cur cur' show ?thesis
    by (simp add: defaultExpansionOptions_def)
qed

subsection \<open>The collapse boundary\<close>

lemma newHeight_ref_as_min:
  assumes "potentialHeight_ref opts win stickyEl st = currentMaxHeight_ref opts win stickyEl st"
  shows "newHeight_ref opts win stickyEl (container\<lparr>rect_bottom := b\<rparr>) st
           = min (b - stickyTriggerOffset opts) (currentMaxHeight_ref opts win stickyEl st)"
  using assms
  by (simp add: newHeight_ref_def isCollapsing_ref_def collapsingHeight_ref_def
      distancePastEnd_ref_def min_def)

lemma newHeight_mid_cases:
  assumes "potentialHeight_mid opts win stickyEl st = currentMaxHeight_mid opts win stickyEl st"
  shows "newHeight_mid opts win stickyEl (container\<lparr>rect_bottom := b\<rparr>) st
           = (if b < currentMaxHeight_mid opts win stickyEl st + stickyTriggerOffset opts
              then b - stickyTriggerOffset opts + stickyPadding opts
              else currentMaxHeight_mid opts win stickyEl st)"
  using assms
  by (simp add: newHeight_mid_def isCollapsing_mid_def collapsingHeight_mid_def
      distancePastEnd_mid_def)

lemma step_not_continuous:
  fixes B c p t :: real
  assumes "p \<noteq> 0" and c: "B = c + t"
  shows "\<not> isCont (\<lambda>b. if b < B then b - t + p else c) B"
proof
  let ?f = "\<lambda>b. if b < B then b - t + p else c"
  assume "isCont ?f B"
  then have "?f \<midarrow>B\<rightarrow> ?f B" by (simp add: isCont_def)
  then have "\<forall>r>0. \<exists>s>0. \<forall>x. x \<noteq> B \<and> norm (x - B) < s \<longrightarrow> norm (?f x - ?f B) < r"
    by (simp only: LIM_eq)
  moreover have "0 < \<bar>p\<bar> / 2" using assms by simp
  ultimately obtain s where s: "0 < s"
    and lim: "\<And>x. x \<noteq> B \<Longrightarrow> norm (x - B) < s \<Longrightarrow> norm (?f x - ?f B) < \<bar>p\<bar> / 2"
    by blast
  define d where "d = min (s / 2) (\<bar>p\<bar> / 2)"
  have d: "0 < d" "d < s" "d \<le> \<bar>p\<bar> / 2" using s assms by (auto simp: d_def)
  have "norm (?f (B - d) - ?f B) < \<bar>p\<bar> / 2"
    using d by (intro lim) auto
  then have "\<bar>p - d\<bar> < \<bar>p\<bar> / 2" using d c by (simp add: algebra_simps)
  then show False using d by linarith
qed

text \<open>
  C3, as the middle variant has it. With the default options, \<open>currentMaxHeight = 900\<close> and
  trigger offset \<open>80\<close>, the boundary is at container bottom \<open>980\<close>. There the
  non-collapsing branch is taken and gives \<open>900\<close>, while the collapsing branch evaluates
  to \<open>920\<close>; one pixel further, at \<open>979\<close>, \<open>rawHeight\<close> is \<open>919\<close>: it has gone up, not down.
\<close>

theorem collapse_boundary_mid_counterexample:
  "potentialHeight_mid defaultExpansionOptions (window collapseHost)
      \<lparr>rect_top = 80, rect_bottom = 980, offsetTop = 400, offsetHeight = 900\<rparr> triggered
     = currentMaxHeight_mid defaultExpansionOptions (window collapseHost)
         \<lparr>rect_top = 80, rect_bottom = 980, offsetTop = 400, offsetHeight = 900\<rparr> triggered
   \<and> currentMaxHeight_mid defaultExpansionOptions (window collapseHost)
         \<lparr>rect_top = 80, rect_bottom = 980, offsetTop = 400, offsetHeight = 900\<rparr> triggered
       + stickyTriggerOffset defaultExpansionOptions = 980
   \<and> collapsingHeight_mid defaultExpansionOptions (window collapseHost)
         \<lparr>rect_top = 80, rect_bottom = 980, offsetTop = 400, offsetHeight = 900\<rparr>
         \<lparr>rect_top = -3020, rect_bottom = 980, offsetTop = 300, offsetHeight = 4000\<rparr>
         triggered = 920
   \<and> newHeight_mid defaultExpansionOptions (window collapseHost)
         \<lparr>rect_top = 80, rect_bottom = 980, offsetTop = 400, offsetHeight = 900\<rparr>
         \<lparr>rect_top = -3020, rect_bottom = 980, offsetTop = 300, offsetHeight = 4000\<rparr>
         triggered = 900
   \<and> newHeight_mid defaultExpansionOptions (window collapseHost)
         \<lparr>rect_top = 80, rect_bottom = 980, offsetTop = 400, offsetHeight = 900\<rparr>
         \<lparr>rect_top = -3021, rect_bottom = 979, offsetTop = 300, offsetHeight = 4000\<rparr>
         triggered = 919"
  by (simp add: scroll_defs example_defs Let_def)

text \<open>
  C3, amended. Let everything but the container's bottom edge be fixed, with
  \<open>potentialHeight = currentMaxHeight\<close>. In the refined variant the collapsing branch and
  the non-collapsing branch both give \<open>currentMaxHeight\<close> at
  \<open>containerBottom = currentMaxHeight + triggerOffset\<close>, \<open>rawHeight\<close> is a continuous
  function of \<open>containerBottom\<close>, and below that point it goes down strictly as
  \<open>containerBottom\<close> does. In the middle variant the collapsing branch gives
  \<open>currentMaxHeight + stickyPadding\<close> at that point while the branch taken there gives
  \<open>currentMaxHeight\<close>, and \<open>rawHeight\<close> is continuous just when \<open>stickyPadding = 0\<close>.
\<close>

theorem collapse_boundary:
  assumes r: "potentialHeight_ref opts win stickyEl rst = currentMaxHeight_ref opts win stickyEl rst"
    and m: "potentialHeight_mid opts win stickyEl mst = currentMaxHeight_mid opts win stickyEl mst"
  shows "collapsingHeight_ref opts win stickyEl
            (container\<lparr>rect_bottom :=
               currentMaxHeight_ref opts win stickyEl rst + stickyTriggerOffset opts\<rparr>) rst
           = currentMaxHeight_ref opts win stickyEl rst
       \<and> newHeight_ref opts win stickyEl
            (container\<lparr>rect_bottom :=
               currentMaxHeight_ref opts win stickyEl rst + stickyTriggerOffset opts\<rparr>) rst
           = currentMaxHeight_ref opts win stickyEl rst
       \<and> continuous_on UNIV
            (\<lambda>b. newHeight_ref opts win stickyEl (container\<lparr>rect_bottom := b\<rparr>) rst)
       \<and> (\<forall>b b'. b < b'
              \<and> b' \<le> currentMaxHeight_ref opts win stickyEl rst + stickyTriggerOffset opts
            \<longrightarrow> newHeight_ref opts win stickyEl (container\<lparr>rect_bottom := b\<rparr>) rst
                  < newHeight_ref opts win stickyEl (container\<lparr>rect_bottom := b'\<rparr>) rst)
       \<and> collapsingHeight_mid opts win stickyEl
            (container\<lparr>rect_bottom :=
               currentMaxHeight_mid opts win stickyEl mst + stickyTriggerOffset opts\<rparr>) mst
           = currentMaxHeight_mid opts win stickyEl mst + stickyPadding opts
       \<and> newHeight_mid opts win stickyEl
            (container\<lparr>rect_bottom :=
               currentMaxHeight_mid opts win stickyEl mst + stickyTriggerOffset opts\<rparr>) mst
           = currentMaxHeight_mid opts win stickyEl mst
       \<and> (continuous_on UNIV
            (\<lambda>b. newHeight_mid opts win stickyEl (container\<lparr>rect_bottom := b\<rparr>) mst)
          \<longleftrightarrow> stickyPadding opts = 0)"
proof -
  let ?cur = "currentMaxHeight_ref opts win stickyEl rst"
  let ?curm = "currentMaxHeight_mid opts win stickyEl mst"
  let ?t = "stickyTriggerOffset opts"
  have 1: "collapsingHeight_ref opts win stickyEl (container\<lparr>rect_bottom := ?cur + ?t\<rparr>) rst
      = ?cur"
    by (simp add: collapsingHeight_ref_def distancePastEnd_ref_def)
  have 2: "newHeight_ref opts win stickyEl (container\<lparr>rect_bottom := ?cur + ?t\<rparr>) rst = ?cur"
    by (simp add: newHeight_ref_as_min [OF r])
  have 3: "continuous_on UNIV
      (\<lambda>b. newHeight_ref opts win stickyEl (container\<lparr>rect_bottom := b\<rparr>) rst)"
    by (simp only: newHeight_ref_as_min [OF r]) (intro continuous_intros)
  have 4: "\<forall>b b'. b < b' \<and> b' \<le> ?cur + ?t
            \<longrightarrow> newHeight_ref opts win stickyEl (container\<lparr>rect_bottom := b\<rparr>) rst
                  < newHeight_ref opts win stickyEl (container\<lparr>rect_bottom := b'\<rparr>) rst"
    by (auto simp add: newHeight_ref_as_min [OF r])
  have 5: "collapsingHeight_mid opts win stickyEl (container\<lparr>rect_bottom := ?curm + ?t\<rparr>) mst
      = ?curm + stickyPadding opts"
    by (simp add: collapsingHeight_mid_def distancePastEnd_mid_def)
  have 6: "newHeight_mid opts win stickyEl (container\<lparr>rect_bottom := ?curm + ?t\<rparr>) mst = ?curm"
    by (simp add: newHeight_mid_cases [OF m])
  have 7: "continuous_on UNIV
            (\<lambda>b. newHeight_mid opts win stickyEl (container\<lparr>rect_bottom := b\<rparr>) mst)
          \<longleftrightarrow> stickyPadding opts = 0"
  proof
    assume c: "continuous_on UNIV
            (\<lambda>b. newHeight_mid opts win stickyEl (container\<lparr>rect_bottom := b\<rparr>) mst)"
    show "stickyPadding opts = 0"
    proof (rule ccontr)
      assume p: "stickyPadding opts \<noteq> 0"
      from c have "isCont (\<lambda>b. newHeight_mid opts win stickyEl (container\<lparr>rect_bottom := b\<rparr>) mst)
          (?curm + ?t)"
        by (simp add: continuous_on_eq_continuous_at)
      then have "isCont (\<lambda>b. if b < ?curm + ?t then b - ?t + stickyPadding opts
          else ?curm) (?curm + ?t)"
        by (simp add: newHeight_mid_cases [OF m])
      with step_not_continuous [OF p refl] show False by blast
    qed
  next
    assume p: "stickyPadding opts = 0"
    have "(\<lambda>b. newHeight_mid opts win stickyEl (container\<lparr>rect_bottom := b\<rparr>) mst)
        = (\<lambda>b. min (b - ?t) ?curm)"
      using p by (auto simp add: newHeight_mid_cases [OF m] min_def fun_eq_iff)
    then show "continuous_on UNIV
        (\<lambda>b. newHeight_mid opts win stickyEl (container\<lparr>rect_bottom := b\<rparr>) mst)"
      by (simp only:) (intro continuous_intros)
  qed
  from 1 2 3 4 5 6 7 show ?thesis by blast
qed


theorem collapse_boundary_witness:
  "collapsingHeight_ref defaultExpansionOptions (window collapseHost)
      \<lparr>rect_top = 80, rect_bottom = 980, offsetTop = 400, offsetHeight = 900\<rparr>
      \<lparr>rect_top = -3050, rect_bottom = 980, offsetTop = 300, offsetHeight = 4000\<rparr>
      triggered_ref = 900
   \<and> continuous_on UNIV
        (\<lambda>b. newHeight_ref defaultExpansionOptions (window collapseHost)
           \<lparr>rect_top = 80, rect_bottom = 980, offsetTop = 400, offsetHeight = 900\<rparr>
           \<lparr>rect_top = -3050, rect_bottom = b, offsetTop = 300, offsetHeight = 4000\<rparr>
           triggered_ref)
   \<and> \<not> continuous_on UNIV
        (\<lambda>b. newHeight_mid defaultExpansionOptions (window collapseHost)
           \<lparr>rect_top = 80, rect_bottom = 980, offsetTop = 400, offsetHeight = 900\<rparr>
           \<lparr>rect_top = -3050, rect_bottom = b, offsetTop = 300, offsetHeight = 4000\<rparr>
           triggered)"
proof -
  have r: "potentialHeight_ref defaultExpansionOptions (window collapseHost)
      \<lparr>rect_top = 80, rect_bottom = 980, offsetTop = 400, offsetHeight = 900\<rparr> triggered_ref
     = currentMaxHeight_ref defaultExpansionOptions (window collapseHost)
         \<lparr>rect_top = 80, rect_bottom = 980, offsetTop = 400, offsetHeight = 900\<rparr>
         triggered_ref"
    by (simp add: scroll_defs example_defs Let_def)
  have m: "potentialHeight_mid defaultExpansionOptions (window collapseHost)
      \<lparr>rect_top = 80, rect_bottom = 980, offsetTop = 400, offsetHeight = 900\<rparr> triggered
     = currentMaxHeight_mid defaultExpansionOptions (window collapseHost)
         \<lparr>rect_top = 80, rect_bottom = 980, offsetTop = 400, offsetHeight = 900\<rparr> triggered"
    by (simp add: scroll_defs example_defs Let_def)
  have cur: "currentMaxHeight_ref defaultExpansionOptions (window collapseHost)
         \<lparr>rect_top = 80, rect_bottom = 980, offsetTop = 400, offsetHeight = 900\<rparr>
         triggered_ref = 900"
    by (simp add: scroll_defs example_defs Let_def)
  have t: "stickyTriggerOffset defaultExpansionOptions = 80"
    and p: "stickyPadding defaultExpansionOptions = 20"
    by (simp_all add: stickyTriggerOffset_def defaultExpansionOptions_def)
  from collapse_boundary [OF r m,
      of "\<lparr>rect_top = -3050, rect_bottom = 980, offsetTop = 300, offsetHeight = 4000\<rparr>"]
  show ?thesis by (simp add: cur t p)
qed

subsection \<open>Middle against refined\<close>

text \<open>
  C10, the converse. With the collapse condition true both variants can still write the
  same height: with \<open>stickyPadding = 0\<close> they write the same unclamped \<open>870\<close> in scenario C,
  and with the default options both clamp to \<open>minHeight\<close> when the container's bottom edge
  is at \<open>500\<close>. With a start height other than \<open>minHeight\<close> they can agree as well (here
  the viewport limits both to \<open>700\<close>).
\<close>

theorem variants_agree_counterexample:
  "isCollapsing_ref noPaddingOptions (window collapseHost)
      \<lparr>rect_top = 80, rect_bottom = 980, offsetTop = 400, offsetHeight = 900\<rparr>
      \<lparr>rect_top = -3050, rect_bottom = 950, offsetTop = 300, offsetHeight = 4000\<rparr>
      triggered_ref
   \<and> expansionStartHeight triggered_ref = minHeight noPaddingOptions
   \<and> snd (handleScroll_mid noPaddingOptions collapseHost triggered) = Some 870
   \<and> snd (handleScroll_ref noPaddingOptions collapseHost triggered_ref) = Some 870
   \<and> isCollapsing_ref defaultExpansionOptions (window deepCollapseHost)
      \<lparr>rect_top = 80, rect_bottom = 720, offsetTop = 400, offsetHeight = 640\<rparr>
      \<lparr>rect_top = -3500, rect_bottom = 500, offsetTop = 300, offsetHeight = 4000\<rparr>
      triggered_ref
   \<and> stickyElementRef deepCollapseHost =
        Some \<lparr>rect_top = 80, rect_bottom = 720, offsetTop = 400, offsetHeight = 640\<rparr>
   \<and> containerRef deepCollapseHost =
        Some \<lparr>rect_top = -3500, rect_bottom = 500, offsetTop = 300, offsetHeight = 4000\<rparr>
   \<and> snd (handleScroll_mid defaultExpansionOptions deepCollapseHost triggered) = Some 640
   \<and> snd (handleScroll_ref defaultExpansionOptions deepCollapseHost triggered_ref) = Some 640
   \<and> expansionStartHeight (triggered_ref\<lparr>expansionStartHeight := 700\<rparr>)
        \<noteq> minHeight defaultExpansionOptions
   \<and> snd (handleScroll_mid defaultExpansionOptions lowViewportHost triggered) = Some 700
   \<and> snd (handleScroll_ref defaultExpansionOptions lowViewportHost
          (triggered_ref\<lparr>expansionStartHeight := 700\<rparr>)) = Some 700"
  by (simp add: scroll_defs handleScroll_mid_def handleScroll_ref_def example_defs
      Let_def)

text \<open>
  C10, amended. Take the same flag, start scroll offset, scroll offset, geometry and
  options in both variants. If the refined variant's \<^verbatim>\<open>expansionStartHeight\<close> is
  \<open>minHeight\<close>, the two collapse conditions agree, and if moreover the condition is false
  or \<open>stickyPadding\<close> is \<open>0\<close>, both handlers write the same height. Whenever both variants
  collapse, the middle variant's \<open>rawHeight\<close> is the refined variant's plus \<open>stickyPadding\<close>.
\<close>

theorem variants_agree:
  assumes "hasStartedExpanding mst = hasStartedExpanding rst"
    and "expansionStartScrollY mst = expansionStartScrollY rst"
    and "stickyElementRef host = Some stickyEl" and "containerRef host = Some container"
  shows "(expansionStartHeight rst = minHeight opts
            \<and> (\<not> isCollapsing_ref opts (window host) stickyEl container rst
               \<or> stickyPadding opts = 0)
          \<longrightarrow> snd (handleScroll_mid opts host mst) = snd (handleScroll_ref opts host rst))
       \<and> (expansionStartHeight rst = minHeight opts
          \<longrightarrow> isCollapsing_mid opts (window host) stickyEl container mst
                = isCollapsing_ref opts (window host) stickyEl container rst)
       \<and> (isCollapsing_mid opts (window host) stickyEl container mst
            \<and> isCollapsing_ref opts (window host) stickyEl container rst
          \<longrightarrow> newHeight_mid opts (window host) stickyEl container mst
                = newHeight_ref opts (window host) stickyEl container rst + stickyPadding opts)"
proof -
  have pot: "potentialHeight_mid opts (window host) stickyEl mst
      = potentialHeight_ref opts (window host) stickyEl rst"
    if "expansionStartHeight rst = minHeight opts"
    using that assms(2)
    by (simp add: potentialHeight_mid_def potentialHeight_ref_def scrollDrivenHeight_mid_def
        scrollDrivenHeight_ref_def)
  have coll: "isCollapsing_mid opts (window host) stickyEl container mst
      = isCollapsing_ref opts (window host) stickyEl container rst"
    if "expansionStartHeight rst = minHeight opts"
    by (simp add: isCollapsing_mid_def isCollapsing_ref_def currentMaxHeight_mid_def
        currentMaxHeight_ref_def pot [OF that])
  have diff: "newHeight_mid opts (window host) stickyEl container mst
      = newHeight_ref opts (window host) stickyEl container rst + stickyPadding opts"
    if "isCollapsing_mid opts (window host) stickyEl container mst"
      and "isCollapsing_ref opts (window host) stickyEl container rst"
    using that
    by (simp add: newHeight_mid_def newHeight_ref_def collapsingHeight_mid_def
        collapsingHeight_ref_def distancePastEnd_mid_def distancePastEnd_ref_def)
  have raw: "newHeight_mid opts (window host) stickyEl container mst
      = newHeight_ref opts (window host) stickyEl container rst"
    if s: "expansionStartHeight rst = minHeight opts"
      and c: "\<not> isCollapsing_ref opts (window host) stickyEl container rst
               \<or> stickyPadding opts = 0"
  proof (cases "isCollapsing_ref opts (window host) stickyEl container rst")
    case True
    with c diff coll [OF s] show ?thesis by simp
  next
    case False
    with coll [OF s] pot [OF s] show ?thesis
      by (simp add: newHeight_mid_def newHeight_ref_def)
  qed
  have same: "snd (handleScroll_mid opts host mst) = snd (handleScroll_ref opts host rst)"
    if "expansionStartHeight rst = minHeight opts"
      and "\<not> isCollapsing_ref opts (window host) stickyEl container rst
             \<or> stickyPadding opts = 0"
    using assms raw [OF that]
    by (simp add: handleScroll_mid_def handleScroll_ref_def Let_def)
  from same coll diff show ?thesis by blast
qed

theorem variants_agree_witness:
  "snd (handleScroll_mid defaultExpansionOptions exampleHost triggered)
     = snd (handleScroll_ref defaultExpansionOptions exampleHost triggered_ref)
   \<and> newHeight_mid defaultExpansionOptions (window collapseHost)
        \<lparr>rect_top = 80, rect_bottom = 980, offsetTop = 400, offsetHeight = 900\<rparr>
        \<lparr>rect_top = -3050, rect_bottom = 950, offsetTop = 300, offsetHeight = 4000\<rparr>
        triggered
     = newHeight_ref defaultExpansionOptions (window collapseHost)
        \<lparr>rect_top = 80, rect_bottom = 980, offsetTop = 400, offsetHeight = 900\<rparr>
        \<lparr>rect_top = -3050, rect_bottom = 950, offsetTop = 300, offsetHeight = 4000\<rparr>
        triggered_ref + stickyPadding defaultExpansionOptions"
proof -
  have a: "snd (handleScroll_mid defaultExpansionOptions exampleHost triggered)
     = snd (handleScroll_ref defaultExpansionOptions exampleHost triggered_ref)"
    using variants_agree [where mst = triggered and rst = triggered_ref
        and host = exampleHost and opts = defaultExpansionOptions
        and stickyEl = "\<lparr>rect_top = 80, rect_bottom = 720, offsetTop = 400,
                          offsetHeight = 640\<rparr>"
        and container = "\<lparr>rect_top = 0, rect_bottom = 3000, offsetTop = 300,
                            offsetHeight = 4000\<rparr>"]
    by (simp add: scroll_defs example_defs Let_def)
  have b: "newHeight_mid defaultExpansionOptions (window collapseHost)
        \<lparr>rect_top = 80, rect_bottom = 980, offsetTop = 400, offsetHeight = 900\<rparr>
        \<lparr>rect_top = -3050, rect_bottom = 950, offsetTop = 300, offsetHeight = 4000\<rparr>
        triggered
     = newHeight_ref defaultExpansionOptions (window collapseHost)
        \<lparr>rect_top = 80, rect_bottom = 980, offsetTop = 400, offsetHeight = 900\<rparr>
        \<lparr>rect_top = -3050, rect_bottom = 950, offsetTop = 300, offsetHeight = 4000\<rparr>
        triggered_ref + stickyPadding defaultExpansionOptions"
    using variants_agree [where mst = triggered and rst = triggered_ref
        and host = collapseHost and opts = defaultExpansionOptions
        and stickyEl = "\<lparr>rect_top = 80, rect_bottom = 980, offsetTop = 400,
                          offsetHeight = 900\<rparr>"
        and container = "\<lparr>rect_top = -3050, rect_bottom = 950, offsetTop = 300,
                            offsetHeight = 4000\<rparr>"]
    by (simp add: scroll_defs example_defs Let_def)
  from a b show ?thesis by (rule conjI)
qed

section \<open>The resize handler\<close>

lemma clamp_usual:
  "lo \<le> hi \<Longrightarrow> clamp x lo hi = (if x < lo then lo else if hi < x then hi else x)"
  by (simp add: clamp_def)

text \<open>
  C8. In the refined variant, on a resize after the trigger has fired and with the element
  mounted, the handler writes \<open>clamp(viewportHeight - elementTop - stickyPadding,
  minHeight, maxHeight)\<close>, stores that height in \<^verbatim>\<open>expansionStartHeight\<close> and the current
  scroll offset in \<^verbatim>\<open>expansionStartScrollY\<close>, and changes nothing else.
\<close>

theorem handleResize_reanchors:
  assumes "hasStartedExpanding st" and "stickyElementRef host = Some stickyEl"
  shows "handleResize opts host st =
     (st\<lparr>expansionStartHeight :=
            clamp (innerHeight (window host) - rect_top stickyEl - stickyPadding opts)
              (minHeight opts) (maxHeight opts),
         expansionStartScrollY := scrollY (window host)\<rparr>,
      Some (clamp (innerHeight (window host) - rect_top stickyEl - stickyPadding opts)
              (minHeight opts) (maxHeight opts)))"
  using assms by (simp add: handleResize_def updateHeightToFitViewport_def clamp_def Let_def)

theorem handleResize_reanchors_witness:
  "handleResize defaultExpansionOptions lowViewportHost triggered_ref =
     (\<lparr>hasStartedExpanding = True, expansionStartScrollY = 700, expansionStartHeight = 700\<rparr>,
      Some 700)"
  using handleResize_reanchors [where st = triggered_ref and host = lowViewportHost
      and opts = defaultExpansionOptions
      and stickyEl = "\<lparr>rect_top = 80, rect_bottom = 780, offsetTop = 400,
                        offsetHeight = 700\<rparr>"]
  by (simp add: example_defs clamp_def)

text \<open>
  C9. The guard of the resize handler looks at the flag and at the element only. After the
  trigger has fired, with the element mounted and the container reference null, a resize
  still writes the viewport-fit height and still re-anchors \<^verbatim>\<open>expansionStartHeight\<close> and
  \<^verbatim>\<open>expansionStartScrollY\<close>, while the scroll handler, on the same page and state, does
  nothing.
\<close>

theorem handleResize_without_container:
  assumes "hasStartedExpanding st" and "stickyElementRef host = Some stickyEl"
    and "containerRef host = None"
  shows "snd (handleResize opts host st)
           = Some (updateHeightToFitViewport opts (window host) stickyEl)
       \<and> expansionStartHeight (fst (handleResize opts host st))
           = updateHeightToFitViewport opts (window host) stickyEl
       \<and> expansionStartScrollY (fst (handleResize opts host st)) = scrollY (window host)
       \<and> handleScroll_ref opts host st = (st, None)"
  using assms by (simp add: handleResize_def handleScroll_ref_def Let_def)

theorem handleResize_without_container_witness:
  "snd (handleResize defaultExpansionOptions (lowViewportHost\<lparr>containerRef := None\<rparr>)
          triggered_ref) = Some 700
   \<and> expansionStartHeight
        (fst (handleResize defaultExpansionOptions (lowViewportHost\<lparr>containerRef := None\<rparr>)
          triggered_ref)) = 700
   \<and> expansionStartScrollY
        (fst (handleResize defaultExpansionOptions (lowViewportHost\<lparr>containerRef := None\<rparr>)
          triggered_ref)) = 700
   \<and> handleScroll_ref defaultExpansionOptions (lowViewportHost\<lparr>containerRef := None\<rparr>)
        triggered_ref = (triggered_ref, None)"
  using handleResize_without_container [where st = triggered_ref
      and host = "lowViewportHost\<lparr>containerRef := None\<rparr>"
      and opts = defaultExpansionOptions
      and stickyEl = "\<lparr>rect_top = 80, rect_bottom = 780, offsetTop = 400,
                        offsetHeight = 700\<rparr>"]
  by (simp add: example_defs updateHeightToFitViewport_def Let_def)

section \<open>The trigger\<close>

lemma onEntry_ref_fired:
  "hasStartedExpanding st \<Longrightarrow> fold (onEntry_ref opts win) es (st, ws, us) = (st, ws, us)"
  by (induction es) (simp_all add: onEntry_ref_def)

lemma onEntry_ref_quiet:
  "\<forall>x\<in>set es. \<not> isIntersecting x \<Longrightarrow> fold (onEntry_ref opts win) es acc = acc"
  by (induction es) (simp_all add: onEntry_ref_def split: prod.splits)

lemma onEntry_mid_fired:
  "hasStartedExpanding st \<Longrightarrow> fold (onEntry_mid win) es (st, us) = (st, us)"
  by (induction es) (simp_all add: onEntry_mid_def)

lemma onEntry_mid_quiet:
  "\<forall>x\<in>set es. \<not> isIntersecting x \<Longrightarrow> fold (onEntry_mid win) es acc = acc"
  by (induction es) (simp_all add: onEntry_mid_def split: prod.splits)

lemma notify_ref_fired:
  "hasStartedExpanding st \<Longrightarrow> notify_ref opts ns (st, ws, us) = (st, ws, us)"
  by (induction ns) (auto simp add: notify_ref_def observerCallback_ref_def onEntry_ref_fired)

lemma notify_ref_quiet:
  "\<forall>(w, es)\<in>set ns. \<forall>x\<in>set es. \<not> isIntersecting x \<Longrightarrow> notify_ref opts ns acc = acc"
  by (induction ns) (auto simp add: notify_ref_def observerCallback_ref_def onEntry_ref_quiet)

lemma notify_mid_fired:
  "hasStartedExpanding st \<Longrightarrow> notify_mid ns (st, us) = (st, us)"
  by (induction ns) (auto simp add: notify_mid_def observerCallback_mid_def onEntry_mid_fired)

lemma notify_mid_quiet:
  "\<forall>(w, es)\<in>set ns. \<forall>x\<in>set es. \<not> isIntersecting x \<Longrightarrow> notify_mid ns acc = acc"
  by (induction ns) (auto simp add: notify_mid_def observerCallback_mid_def onEntry_mid_quiet)

lemma triggerCallback_box_mid: "triggerCallback_box = observerCallback_mid"
  by (simp add: triggerCallback_box_def observerCallback_mid_def fun_eq_iff)

lemma notify_box_mid: "notify_box ns acc = notify_mid ns acc"
  by (simp add: notify_box_def notify_mid_def triggerCallback_box_mid)

lemma notify_ref_first:
  assumes "\<not> hasStartedExpanding st" and "isIntersecting e"
    and "\<forall>x\<in>set before. \<not> isIntersecting x"
    and "\<forall>(w, es)\<in>set earlier. \<forall>x\<in>set es. \<not> isIntersecting x"
  shows "notify_ref opts (earlier @ (win, before @ e # after) # later) (st, [], [])
     = (st\<lparr>hasStartedExpanding := True, expansionStartScrollY := scrollY win,
           expansionStartHeight := updateHeightToFitViewport opts win (target e)\<rparr>,
        [updateHeightToFitViewport opts win (target e)], [target e])"
proof -
  let ?st = "st\<lparr>hasStartedExpanding := True, expansionStartScrollY := scrollY win,
           expansionStartHeight := updateHeightToFitViewport opts win (target e)\<rparr>"
  let ?acc = "(?st, [updateHeightToFitViewport opts win (target e)], [target e])"
  have "notify_ref opts (earlier @ (win, before @ e # after) # later) (st, [], [])
      = notify_ref opts later
          (fold (onEntry_ref opts win) after
             (onEntry_ref opts win e
                (fold (onEntry_ref opts win) before (notify_ref opts earlier (st, [], [])))))"
    by (simp add: notify_ref_def observerCallback_ref_def)
  also have "notify_ref opts earlier (st, [], []) = (st, [], [])"
    using assms(4) by (rule notify_ref_quiet)
  also have "fold (onEntry_ref opts win) before (st, [], []) = (st, [], [])"
    using assms(3) by (rule onEntry_ref_quiet)
  also have "onEntry_ref opts win e (st, [], []) = ?acc"
    using assms(1,2) by (simp add: onEntry_ref_def Let_def)
  also have "fold (onEntry_ref opts win) after ?acc = ?acc"
    by (rule onEntry_ref_fired) simp
  also have "notify_ref opts later ?acc = ?acc"
    by (rule notify_ref_fired) simp
  finally show ?thesis .
qed

lemma notify_mid_first:
  assumes "\<not> hasStartedExpanding st" and "isIntersecting e"
    and "\<forall>x\<in>set before. \<not> isIntersecting x"
    and "\<forall>(w, es)\<in>set earlier. \<forall>x\<in>set es. \<not> isIntersecting x"
  shows "notify_mid (earlier @ (win, before @ e # after) # later) (st, [])
     = (st\<lparr>hasStartedExpanding := True, expansionStartScrollY := scrollY win\<rparr>, [target e])"
proof -
  let ?acc = "(st\<lparr>hasStartedExpanding := True, expansionStartScrollY := scrollY win\<rparr>,
      [target e])"
  have "notify_mid (earlier @ (win, before @ e # after) # later) (st, [])
      = notify_mid later
          (fold (onEntry_mid win) after
             (onEntry_mid win e
                (fold (onEntry_mid win) before (notify_mid earlier (st, [])))))"
    by (simp add: notify_mid_def observerCallback_mid_def)
  also have "notify_mid earlier (st, []) = (st, [])"
    using assms(4) by (rule notify_mid_quiet)
  also have "fold (onEntry_mid win) before (st, []) = (st, [])"
    using assms(3) by (rule onEntry_mid_quiet)
  also have "onEntry_mid win e (st, []) = ?acc"
    using assms(1,2) by (simp add: onEntry_mid_def)
  also have "fold (onEntry_mid win) after ?acc = ?acc"
    by (rule onEntry_mid_fired) simp
  also have "notify_mid later ?acc = ?acc"
    by (rule notify_mid_fired) simp
  finally show ?thesis .
qed

lemma step_keeps_flag:
  "hasStartedExpanding (closure s) \<Longrightarrow> hasStartedExpanding (closure (step opts ev s))"
proof (cases ev)
  case (Intersection host entries)
  assume "hasStartedExpanding (closure s)"
  with Intersection show ?thesis
    by (simp add: observerCallback_ref_def onEntry_ref_fired)
qed (auto simp add: invoke_def handleScroll_ref_def handleResize_def throttle_call_def
      throttle_expire_def Let_def split: option.splits Throttled.splits prod.splits)

lemma run_keeps_flag:
  "hasStartedExpanding (closure s) \<Longrightarrow> hasStartedExpanding (closure (run opts evs s))"
  by (induction evs arbitrary: s) (simp_all add: run_def step_keeps_flag)


lemma step_Intersection_fired:
  "hasStartedExpanding (closure s) \<Longrightarrow> step opts (Intersection host entries) s = s"
  by (simp add: observerCallback_ref_def onEntry_ref_fired)

text \<open>
  C6, in a later attach cycle. The closure variables are declared outside \<^verbatim>\<open>watchEffect\<close>
  and neither the cleanup nor a new run of the effect assigns them. After the first cycle
  has fired at scroll offset \<open>700\<close> and the effect has run again, the new observer is
  observing, yet three intersecting notifications (the first at scroll offset \<open>760\<close>) change
  nothing: the state is the one the first cycle left, no height is written and the
  observer goes on observing. The callback of the middle variant, called on a state
  whose flag is already true, does the same: no assignment, no \<^verbatim>\<open>unobserve\<close>.
\<close>

theorem trigger_second_cycle_counterexample:
  "observing (run defaultExpansionOptions reattachTrace
      (useStickyExpansion_ref defaultExpansionOptions))
   \<and> closure (run defaultExpansionOptions reattachTrace
      (useStickyExpansion_ref defaultExpansionOptions))
     = \<lparr>hasStartedExpanding = True, expansionStartScrollY = 700, expansionStartHeight = 700\<rparr>
   \<and> scrollY (window collapseHost) = 760
   \<and> run defaultExpansionOptions (reattachTrace @ secondCycleNotifications)
        (useStickyExpansion_ref defaultExpansionOptions)
     = run defaultExpansionOptions reattachTrace
        (useStickyExpansion_ref defaultExpansionOptions)
   \<and> notify_mid threeNotifications
        (\<lparr>hasStartedExpanding = True, expansionStartScrollY = 120\<rparr>, [])
     = (\<lparr>hasStartedExpanding = True, expansionStartScrollY = 120\<rparr>, [])"
  by (simp add: run_def reattachTrace_def secondCycleNotifications_def
      useStickyExpansion_ref_def initialState_ref_def observerCallback_ref_def onEntry_ref_def
      updateHeightToFitViewport_def fullyVisible_def threeNotifications_def notify_mid_def
      observerCallback_mid_def onEntry_mid_def example_defs Let_def)

text \<open>
  C6, amended. The flag starts false when the composable is created. Take any sequence of
  notifications in which some entry is intersecting, and let \<open>e\<close>, delivered with window
  \<open>win\<close>, be the first such entry (\<open>earlier\<close> and \<open>before\<close> hold the entries delivered
  before it, none intersecting; \<open>after\<close> and \<open>later\<close> are arbitrary, so every later
  notification may be intersecting too). Started with the flag false, as in the first
  attach cycle of an instance, the callback changes the state at \<open>e\<close> and nowhere else:
  the final state has the flag set, \<^verbatim>\<open>expansionStartScrollY\<close> is the scroll offset of \<open>win\<close>
  and, in the refined variant, \<^verbatim>\<open>expansionStartHeight\<close> is the viewport-fit height computed
  at \<open>e\<close>; \<^verbatim>\<open>unobserve\<close> was called once, and the refined variant wrote one height.
  Once the flag is true, no operation makes it false: not the scroll handler or the
  callback of the basic and middle variants, and no sequence of events of the refined
  variant (scroll, resize, timers, notifications, cleanup, a new run of the effect).
  The cleanup and a new run of the effect leave the closure state as it is, so in a
  later attach cycle of the same instance the flag is true from the start, and then no
  notification changes the state, writes a height or calls \<^verbatim>\<open>unobserve\<close>.
\<close>

theorem trigger_fires_once:
  assumes "isIntersecting e" and "\<forall>x\<in>set before. \<not> isIntersecting x"
    and "\<forall>(w, es)\<in>set earlier. \<forall>x\<in>set es. \<not> isIntersecting x"
  shows "\<not> hasStartedExpanding initialState \<and> \<not> hasStartedExpanding (initialState_ref opts)
    \<and> (\<not> hasStartedExpanding bst \<longrightarrow>
          notify_box (earlier @ (win, before @ e # after) # later) (bst, [])
            = (bst\<lparr>hasStartedExpanding := True, expansionStartScrollY := scrollY win\<rparr>,
               [target e]))
    \<and> (\<not> hasStartedExpanding mst \<longrightarrow>
          notify_mid (earlier @ (win, before @ e # after) # later) (mst, [])
            = (mst\<lparr>hasStartedExpanding := True, expansionStartScrollY := scrollY win\<rparr>,
               [target e]))
    \<and> (\<not> hasStartedExpanding rst \<longrightarrow>
          notify_ref opts (earlier @ (win, before @ e # after) # later) (rst, [], [])
            = (rst\<lparr>hasStartedExpanding := True, expansionStartScrollY := scrollY win,
                   expansionStartHeight := updateHeightToFitViewport opts win (target e)\<rparr>,
               [updateHeightToFitViewport opts win (target e)], [target e]))
    \<and> (hasStartedExpanding bst \<longrightarrow>
          hasStartedExpanding (fst (handleScroll_box bopts host bst))
          \<and> hasStartedExpanding (fst (notify_box ns (bst, us))))
    \<and> (hasStartedExpanding mst \<longrightarrow>
          hasStartedExpanding (fst (handleScroll_mid opts host mst))
          \<and> hasStartedExpanding (fst (notify_mid ns (mst, us))))
    \<and> (hasStartedExpanding (closure s) \<longrightarrow>
          hasStartedExpanding (closure (run opts evs s)))
    \<and> closure (step opts Cleanup s) = closure s
    \<and> closure (step opts (EffectRun host) s) = closure s
    \<and> (hasStartedExpanding bst \<longrightarrow> notify_box ns (bst, us) = (bst, us))
    \<and> (hasStartedExpanding mst \<longrightarrow> notify_mid ns (mst, us) = (mst, us))
    \<and> (hasStartedExpanding rst \<longrightarrow> notify_ref opts ns (rst, ws, us) = (rst, ws, us))
    \<and> (hasStartedExpanding (closure s) \<longrightarrow>
          step opts (Intersection host entries) s = s)"
proof -
  have init: "\<not> hasStartedExpanding initialState"
    "\<not> hasStartedExpanding (initialState_ref opts)"
    by (simp_all add: initialState_def initialState_ref_def)
  have box: "notify_box (earlier @ (win, before @ e # after) # later) (bst, [])
      = (bst\<lparr>hasStartedExpanding := True, expansionStartScrollY := scrollY win\<rparr>, [target e])"
    if "\<not> hasStartedExpanding bst"
    using notify_mid_first [OF that assms] by (simp add: notify_box_mid)
  have mid: "notify_mid (earlier @ (win, before @ e # after) # later) (mst, [])
      = (mst\<lparr>hasStartedExpanding := True, expansionStartScrollY := scrollY win\<rparr>, [target e])"
    if "\<not> hasStartedExpanding mst"
    using that assms by (rule notify_mid_first)
  have ref: "notify_ref opts (earlier @ (win, before @ e # after) # later) (rst, [], [])
      = (rst\<lparr>hasStartedExpanding := True, expansionStartScrollY := scrollY win,
             expansionStartHeight := updateHeightToFitViewport opts win (target e)\<rparr>,
         [updateHeightToFitViewport opts win (target e)], [target e])"
    if "\<not> hasStartedExpanding rst"
    using that assms by (rule notify_ref_first)
  have keep_box: "hasStartedExpanding (fst (handleScroll_box bopts host bst))
      \<and> hasStartedExpanding (fst (notify_box ns (bst, us)))"
    if "hasStartedExpanding bst"
    using that
    by (simp add: handleScroll_box_def Let_def notify_box_mid notify_mid_fired
        split: option.splits)
  have keep_mid: "hasStartedExpanding (fst (handleScroll_mid opts host mst))
      \<and> hasStartedExpanding (fst (notify_mid ns (mst, us)))"
    if "hasStartedExpanding mst"
    using that
    by (simp add: handleScroll_mid_def Let_def notify_mid_fired split: option.splits)
  have same: "closure (step opts Cleanup s) = closure s"
    "closure (step opts (EffectRun host) s) = closure s"
    by (simp_all split: option.splits)
  have later_box: "notify_box ns (bst, us) = (bst, us)" if "hasStartedExpanding bst"
    using that by (simp add: notify_box_mid notify_mid_fired)
  from init box mid ref keep_box keep_mid run_keeps_flag same later_box
    notify_mid_fired notify_ref_fired step_Intersection_fired
  show ?thesis
    by blast
qed

theorem trigger_fires_once_witness:
  "notify_mid threeNotifications (initialState, [])
     = (\<lparr>hasStartedExpanding = True, expansionStartScrollY = 500\<rparr>, [target fullyVisible])
   \<and> notify_ref defaultExpansionOptions threeNotifications
        (initialState_ref defaultExpansionOptions, [], [])
     = (\<lparr>hasStartedExpanding = True, expansionStartScrollY = 500,
         expansionStartHeight = 700\<rparr>, [700], [target fullyVisible])
   \<and> hasStartedExpanding (closure (run defaultExpansionOptions
        (pendingTrace @ [EffectRun exampleHost, ResizeEvent exampleHost])
        (step defaultExpansionOptions
           (Intersection lowViewportHost [fullyVisible])
           (step defaultExpansionOptions (EffectRun lowViewportHost)
              (useStickyExpansion_ref defaultExpansionOptions)))))"
proof -
  have e: "isIntersecting fullyVisible"
    "\<forall>x\<in>set []. \<not> isIntersecting x"
    "\<forall>(w, es)\<in>set ([] :: (Window \<times> IntersectionObserverEntry list) list).
        \<forall>x\<in>set es. \<not> isIntersecting x"
    by (simp_all add: fullyVisible_def)
  have fired: "hasStartedExpanding (closure (step defaultExpansionOptions
           (Intersection lowViewportHost [fullyVisible])
           (step defaultExpansionOptions (EffectRun lowViewportHost)
              (useStickyExpansion_ref defaultExpansionOptions))))"
    by (simp add: useStickyExpansion_ref_def initialState_ref_def observerCallback_ref_def
        onEntry_ref_def fullyVisible_def lowViewportHost_def Let_def)
  from trigger_fires_once [OF e, where win = "\<lparr>scrollY = 500, innerHeight = 800\<rparr>"
      and after = "[]" and opts = defaultExpansionOptions
      and later = "[(\<lparr>scrollY = 600, innerHeight = 800\<rparr>, [fullyVisible]),
                    (\<lparr>scrollY = 700, innerHeight = 800\<rparr>, [fullyVisible])]"
      and mst = initialState and rst = "initialState_ref defaultExpansionOptions"
      and s = "step defaultExpansionOptions
           (Intersection lowViewportHost [fullyVisible])
           (step defaultExpansionOptions (EffectRun lowViewportHost)
              (useStickyExpansion_ref defaultExpansionOptions))"
      and evs = "pendingTrace @ [EffectRun exampleHost, ResizeEvent exampleHost]"]
    fired
  show ?thesis
    by (simp add: threeNotifications_def initialState_def initialState_ref_def
        updateHeightToFitViewport_def fullyVisible_def defaultExpansionOptions_def Let_def)
qed

section \<open>Teardown\<close>

lemmas system_defs = run_def useStickyExpansion_ref_def initialState_ref_def
  observerCallback_ref_def onEntry_ref_def updateHeightToFitViewport_def invoke_def
  throttle_call_def throttle_expire_def handleScroll_ref_def handleResize_def

text \<open>
  C2, as the code has it. In the run \<open>pendingTrace\<close> two heights have been written when the
  cleanup has run, and \<^verbatim>\<open>throttledHandleScroll\<close> still holds a trailing call. When its timer
  expires, with the element and the container still mounted, the handler runs and a third
  height is written.
\<close>

theorem cleanup_pending_counterexample:
  "heightWrites (run defaultExpansionOptions pendingTrace
      (useStickyExpansion_ref defaultExpansionOptions)) = [700, 700]
   \<and> throttledHandleScroll (run defaultExpansionOptions pendingTrace
      (useStickyExpansion_ref defaultExpansionOptions)) = Waiting True
   \<and> heightWrites (run defaultExpansionOptions (pendingTrace @ [ScrollTimer collapseHost])
      (useStickyExpansion_ref defaultExpansionOptions)) = [700, 700, 760]"
  by (simp add: system_defs pendingTrace_def scroll_defs example_defs Let_def)

lemma detached_Cleanup: "detached (step opts Cleanup s)"
  by (simp add: detached_def)

lemma step_notification_detached:
  "detached s \<Longrightarrow> isNotification ev \<Longrightarrow> step opts ev s = s"
  by (cases ev) (simp_all add: detached_def)

lemma run_notifications_detached:
  "detached s \<Longrightarrow> \<forall>ev\<in>set evs. isNotification ev \<Longrightarrow> run opts evs s = s"
  by (induction evs) (simp_all add: run_def step_notification_detached)

lemma step_quiet:
  assumes "detached s" and "nothingPending s" and "\<not> isEffectRun ev"
  shows "detached (step opts ev s) \<and> nothingPending (step opts ev s)
    \<and> heightWrites (step opts ev s) = heightWrites s \<and> closure (step opts ev s) = closure s"
proof (cases ev)
  case (ScrollTimer host)
  with assms show ?thesis
    by (cases "throttledHandleScroll s")
      (simp_all add: detached_def nothingPending_def throttle_expire_def)
next
  case (ResizeTimer host)
  with assms show ?thesis
    by (cases "throttledHandleResize s")
      (simp_all add: detached_def nothingPending_def throttle_expire_def)
qed (use assms in \<open>simp_all add: detached_def nothingPending_def\<close>)

lemma run_quiet:
  "detached s \<Longrightarrow> nothingPending s \<Longrightarrow> \<forall>ev\<in>set evs. \<not> isEffectRun ev \<Longrightarrow>
     heightWrites (run opts evs s) = heightWrites s \<and> closure (run opts evs s) = closure s"
proof (induction evs arbitrary: s)
  case Nil
  then show ?case by (simp add: run_def)
next
  case (Cons ev evs)
  from Cons.prems have q: "detached (step opts ev s)" "nothingPending (step opts ev s)"
    "heightWrites (step opts ev s) = heightWrites s" "closure (step opts ev s) = closure s"
    using step_quiet [of s ev opts] by simp_all
  from Cons.IH [OF q(1,2)] Cons.prems(3) q(3,4) show ?case by (simp add: run_def)
qed

lemma timer_after_cleanup:
  assumes "throttledHandleScroll s = Waiting True"
  shows "heightWrites (step opts (ScrollTimer host) (step opts Cleanup s))
    = heightWrites s @ (case snd (handleScroll_ref opts host (closure s)) of
                          None \<Rightarrow> [] | Some h \<Rightarrow> [h])"
  using assms by (simp add: throttle_expire_def invoke_def split: prod.splits)

lemma resize_timer_after_cleanup:
  assumes "throttledHandleResize s = Waiting True"
  shows "heightWrites (step opts (ResizeTimer host) (step opts Cleanup s))
    = heightWrites s @ (case snd (handleResize opts host (closure s)) of
                          None \<Rightarrow> [] | Some h \<Rightarrow> [h])"
  using assms by (simp add: throttle_expire_def invoke_def split: prod.splits)

text \<open>
  C2, amended. After the cleanup has run, no scroll event, resize event or intersection
  notification writes a height, however many arrive; and when no trailing call was
  pending at the cleanup, no sequence of events that does not run the effect again writes
  a height. The cleanup does not cancel the throttled functions: a trailing call of
  \<^verbatim>\<open>throttledHandleScroll\<close> (of \<^verbatim>\<open>throttledHandleResize\<close>) that is pending at the cleanup
  runs \<^verbatim>\<open>handleScroll\<close> (\<^verbatim>\<open>handleResize\<close>) when its timer expires, on the page as it is then,
  and what that call writes is written.
\<close>

theorem cleanup_unsubscribes:
  "((\<forall>ev\<in>set evs. isNotification ev) \<longrightarrow>
      heightWrites (run opts evs (step opts Cleanup s)) = heightWrites s)
 \<and> (nothingPending s \<and> (\<forall>ev\<in>set evs. \<not> isEffectRun ev) \<longrightarrow>
      heightWrites (run opts evs (step opts Cleanup s)) = heightWrites s)
 \<and> (throttledHandleScroll s = Waiting True \<longrightarrow>
      heightWrites (step opts (ScrollTimer host) (step opts Cleanup s))
        = heightWrites s @ (case snd (handleScroll_ref opts host (closure s)) of
                              None \<Rightarrow> [] | Some h \<Rightarrow> [h]))
 \<and> (throttledHandleResize s = Waiting True \<longrightarrow>
      heightWrites (step opts (ResizeTimer host) (step opts Cleanup s))
        = heightWrites s @ (case snd (handleResize opts host (closure s)) of
                              None \<Rightarrow> [] | Some h \<Rightarrow> [h]))"
proof -
  have d: "detached (step opts Cleanup s)"
    by (rule detached_Cleanup)
  have w: "heightWrites (step opts Cleanup s) = heightWrites s"
    by simp
  have 1: "heightWrites (run opts evs (step opts Cleanup s)) = heightWrites s"
    if "\<forall>ev\<in>set evs. isNotification ev"
    using run_notifications_detached [OF d that] w by simp
  have 2: "heightWrites (run opts evs (step opts Cleanup s)) = heightWrites s"
    if "nothingPending s" and "\<forall>ev\<in>set evs. \<not> isEffectRun ev"
  proof -
    from that(1) have "nothingPending (step opts Cleanup s)"
      by (simp add: nothingPending_def)
    from run_quiet [OF d this that(2)] w show ?thesis by simp
  qed
  from 1 2 timer_after_cleanup resize_timer_after_cleanup show ?thesis by blast
qed

theorem cleanup_unsubscribes_witness:
  "heightWrites (run defaultExpansionOptions
      [ScrollEvent collapseHost, ResizeEvent exampleHost]
      (step defaultExpansionOptions Cleanup
        (run defaultExpansionOptions pendingTrace
          (useStickyExpansion_ref defaultExpansionOptions)))) = [700, 700]
   \<and> heightWrites (step defaultExpansionOptions (ScrollTimer collapseHost)
      (step defaultExpansionOptions Cleanup
        (run defaultExpansionOptions pendingTrace
          (useStickyExpansion_ref defaultExpansionOptions)))) = [700, 700, 760]
   \<and> heightWrites (step defaultExpansionOptions
        (ScrollTimer (collapseHost\<lparr>stickyElementRef := None\<rparr>))
      (step defaultExpansionOptions Cleanup
        (run defaultExpansionOptions pendingTrace
          (useStickyExpansion_ref defaultExpansionOptions)))) = [700, 700]
   \<and> heightWrites (run defaultExpansionOptions
      [ScrollTimer collapseHost, ResizeTimer collapseHost, ScrollEvent collapseHost]
      (step defaultExpansionOptions Cleanup
        (run defaultExpansionOptions (take 3 pendingTrace)
          (useStickyExpansion_ref defaultExpansionOptions)))) = [700, 700]"
proof -
  let ?s = "run defaultExpansionOptions pendingTrace
          (useStickyExpansion_ref defaultExpansionOptions)"
  let ?s3 = "run defaultExpansionOptions (take 3 pendingTrace)
          (useStickyExpansion_ref defaultExpansionOptions)"
  have s: "?s = \<lparr>closure = \<lparr>hasStartedExpanding = True, expansionStartScrollY = 700,
         expansionStartHeight = 700\<rparr>,
      scrollListener = False, resizeListener = False, observing = False,
      throttledHandleScroll = Waiting True, throttledHandleResize = Idle,
      heightWrites = [700, 700]\<rparr>"
    by (simp add: system_defs pendingTrace_def scroll_defs example_defs Let_def)
  have s3: "?s3 = \<lparr>closure = \<lparr>hasStartedExpanding = True, expansionStartScrollY = 700,
         expansionStartHeight = 700\<rparr>,
      scrollListener = True, resizeListener = True, observing = False,
      throttledHandleScroll = Waiting False, throttledHandleResize = Idle,
      heightWrites = [700, 700]\<rparr>"
    by (simp add: system_defs pendingTrace_def scroll_defs example_defs Let_def)
  have a: "heightWrites (run defaultExpansionOptions
      [ScrollEvent collapseHost, ResizeEvent exampleHost]
      (step defaultExpansionOptions Cleanup ?s)) = [700, 700]"
    using cleanup_unsubscribes [where s = ?s and opts = defaultExpansionOptions
        and evs = "[ScrollEvent collapseHost, ResizeEvent exampleHost]"]
    unfolding s by simp
  have b: "heightWrites (step defaultExpansionOptions (ScrollTimer collapseHost)
      (step defaultExpansionOptions Cleanup ?s)) = [700, 700, 760]"
    using cleanup_unsubscribes [where s = ?s and opts = defaultExpansionOptions
        and host = collapseHost]
    unfolding s by (simp add: handleScroll_ref_def scroll_defs example_defs Let_def)
  have c: "heightWrites (step defaultExpansionOptions
        (ScrollTimer (collapseHost\<lparr>stickyElementRef := None\<rparr>))
      (step defaultExpansionOptions Cleanup ?s)) = [700, 700]"
    using cleanup_unsubscribes [where s = ?s and opts = defaultExpansionOptions
        and host = "collapseHost\<lparr>stickyElementRef := None\<rparr>"]
    unfolding s by (simp add: handleScroll_ref_def)
  have d: "heightWrites (run defaultExpansionOptions
      [ScrollTimer collapseHost, ResizeTimer collapseHost, ScrollEvent collapseHost]
      (step defaultExpansionOptions Cleanup ?s3)) = [700, 700]"
    using cleanup_unsubscribes [where s = ?s3 and opts = defaultExpansionOptions
        and evs = "[ScrollTimer collapseHost, ResizeTimer collapseHost,
                    ScrollEvent collapseHost]"]
    unfolding s3 by (simp add: nothingPending_def)
  from a b c d show ?thesis by blast
qed


end
